theory Spec2Isabelle
  imports Complex_Main
begin

section \<open>Numbers of the program\<close>

text \<open>
  Every number the analyzer handles is a NumPy/Python double. The embedding keeps the
  special values of a double (not-a-number and the two infinities), because the program
  relies on them: pandas marks a missing indicator value with NaN, every comparison with
  NaN is false, and NumPy division by zero returns an infinity or NaN instead of raising
  (the module silences the warnings). Finite values are exact reals: rounding and
  overflow of binary floating point are outside the model, and zero carries no sign.
\<close>

datatype pyfloat = Fin real | PosInf | NegInf | NaN

fun fneg :: "pyfloat \<Rightarrow> pyfloat" where
  "fneg (Fin a) = Fin (- a)"
| "fneg PosInf = NegInf"
| "fneg NegInf = PosInf"
| "fneg NaN = NaN"

fun fadd :: "pyfloat \<Rightarrow> pyfloat \<Rightarrow> pyfloat" where
  "fadd (Fin a) (Fin b) = Fin (a + b)"
| "fadd (Fin a) PosInf = PosInf"
| "fadd (Fin a) NegInf = NegInf"
| "fadd PosInf (Fin b) = PosInf"
| "fadd PosInf PosInf = PosInf"
| "fadd PosInf NegInf = NaN"
| "fadd NegInf (Fin b) = NegInf"
| "fadd NegInf NegInf = NegInf"
| "fadd NegInf PosInf = NaN"
| "fadd NaN y = NaN"
| "fadd x NaN = NaN"

definition fsub :: "pyfloat \<Rightarrow> pyfloat \<Rightarrow> pyfloat" where
  "fsub x y = fadd x (fneg y)"

text \<open>The infinity with the sign of a real; \<open>0 * inf\<close> and \<open>0 / 0\<close> are NaN.\<close>

definition inf_of_sign :: "real \<Rightarrow> pyfloat" where
  "inf_of_sign a = (if 0 < a then PosInf else if a < 0 then NegInf else NaN)"

fun fmul :: "pyfloat \<Rightarrow> pyfloat \<Rightarrow> pyfloat" where
  "fmul (Fin a) (Fin b) = Fin (a * b)"
| "fmul (Fin a) PosInf = inf_of_sign a"
| "fmul (Fin a) NegInf = inf_of_sign (- a)"
| "fmul PosInf (Fin b) = inf_of_sign b"
| "fmul NegInf (Fin b) = inf_of_sign (- b)"
| "fmul PosInf PosInf = PosInf"
| "fmul PosInf NegInf = NegInf"
| "fmul NegInf PosInf = NegInf"
| "fmul NegInf NegInf = PosInf"
| "fmul NaN y = NaN"
| "fmul x NaN = NaN"

text \<open>
  NumPy division: a finite value over zero is an infinity of the dividend's sign, zero
  over zero is NaN, and nothing is raised.
\<close>

fun fdiv :: "pyfloat \<Rightarrow> pyfloat \<Rightarrow> pyfloat" where
  "fdiv (Fin a) (Fin b) = (if b = 0 then inf_of_sign a else Fin (a / b))"
| "fdiv (Fin a) PosInf = Fin 0"
| "fdiv (Fin a) NegInf = Fin 0"
| "fdiv PosInf (Fin b) = (if b < 0 then NegInf else PosInf)"
| "fdiv NegInf (Fin b) = (if b < 0 then PosInf else NegInf)"
| "fdiv PosInf PosInf = NaN"
| "fdiv PosInf NegInf = NaN"
| "fdiv NegInf PosInf = NaN"
| "fdiv NegInf NegInf = NaN"
| "fdiv NaN y = NaN"
| "fdiv x NaN = NaN"

text \<open>The comparison \<open><\<close>: false as soon as one side is NaN.\<close>

fun flt :: "pyfloat \<Rightarrow> pyfloat \<Rightarrow> bool" where
  "flt (Fin a) (Fin b) = (a < b)"
| "flt (Fin a) PosInf = True"
| "flt NegInf (Fin b) = True"
| "flt NegInf PosInf = True"
| "flt x y = False"

definition fgt :: "pyfloat \<Rightarrow> pyfloat \<Rightarrow> bool" where
  "fgt x y = flt y x"

text \<open>
  Python's built-in \<open>max(a, b)\<close> and \<open>min(a, b)\<close> keep the first argument unless the
  second one compares strictly greater (smaller); with a NaN the first argument wins.
\<close>

definition py_max :: "pyfloat \<Rightarrow> pyfloat \<Rightarrow> pyfloat" where
  "py_max a b = (if fgt b a then b else a)"

definition py_min :: "pyfloat \<Rightarrow> pyfloat \<Rightarrow> pyfloat" where
  "py_min a b = (if flt b a then b else a)"

subsection \<open>Formatting with one decimal\<close>

text \<open>
  The format specification \<open>:.1f\<close> of an f-string: the value rounded to one decimal,
  ties to even, a minus sign for a negative value, and the words \<open>nan\<close>, \<open>inf\<close>,
  \<open>-inf\<close> for the special values.
\<close>

definition digit_char :: "nat \<Rightarrow> char" where
  "digit_char d = ''0123456789'' ! d"

function str_nat :: "nat \<Rightarrow> string" where
  "str_nat n = (if n < 10 then [digit_char n] else str_nat (n div 10) @ [digit_char (n mod 10)])"
  by pat_completeness auto
termination
  by (relation "measure id") auto

declare str_nat.simps [simp del]

definition round_half_even :: "real \<Rightarrow> int" where
  "round_half_even r =
     (let f = \<lfloor>r\<rfloor>; d = r - of_int f
      in if d < 1 / 2 then f else if 1 / 2 < d then f + 1 else if even f then f else f + 1)"

fun format_1f :: "pyfloat \<Rightarrow> string" where
  "format_1f NaN = ''nan''"
| "format_1f PosInf = ''inf''"
| "format_1f NegInf = ''-inf''"
| "format_1f (Fin x) =
     (let n = nat (round_half_even (\<bar>x\<bar> * 10))
      in (if x < 0 then ''-'' else '''') @ str_nat (n div 10) @ ''.'' @ str_nat (n mod 10))"

section \<open>The enriched frame\<close>

text \<open>
  \<open>calculate_technical_indicators\<close> returns the price frame with one column per
  indicator, or \<open>None\<close> when no data was fetched or the computation raised. A row of
  that frame, with the columns that \<open>generate_signals\<close> and \<open>calculate_price_targets\<close>
  read from the last row; a value without enough history is NaN.
\<close>

record row =
  Close :: pyfloat
  SMA_20 :: pyfloat
  SMA_50 :: pyfloat
  RSI :: pyfloat
  MACD :: pyfloat
  MACD_signal :: pyfloat
  BB_upper :: pyfloat
  BB_lower :: pyfloat
  Support :: pyfloat
  Resistance :: pyfloat

datatype py_error = IndexError | TypeError

text \<open>\<open>df.iloc[-1]\<close>: the last row; IndexError on a frame without rows.\<close>

definition iloc_last :: "row list \<Rightarrow> py_error + row" where
  "iloc_last df = (if df = [] then Inl IndexError else Inr (last df))"

section \<open>Signal generation\<close>

type_synonym signal = "string \<times> string \<times> string"

text \<open>The verdict of a signal, \<open>s[1]\<close> of the triple.\<close>

definition verdict :: "signal \<Rightarrow> string" where
  "verdict s = fst (snd s)"

text \<open>The four rule families of \<open>generate_signals\<close>, each on the last row.\<close>

definition moving_average_signal :: "row \<Rightarrow> signal" where
  "moving_average_signal latest =
     (if fgt (Close latest) (SMA_20 latest) \<and> fgt (SMA_20 latest) (SMA_50 latest)
      then (''Moving Average'', ''BUY'', ''Price above both SMA20 and SMA50'')
      else if flt (Close latest) (SMA_20 latest) \<and> flt (SMA_20 latest) (SMA_50 latest)
      then (''Moving Average'', ''SELL'', ''Price below both SMA20 and SMA50'')
      else (''Moving Average'', ''NEUTRAL'', ''Mixed moving average signals''))"

definition rsi_signal :: "row \<Rightarrow> signal" where
  "rsi_signal latest =
     (if flt (RSI latest) (Fin 30)
      then (''RSI'', ''BUY'', ''Oversold condition (RSI: '' @ format_1f (RSI latest) @ '')'')
      else if fgt (RSI latest) (Fin 70)
      then (''RSI'', ''SELL'', ''Overbought condition (RSI: '' @ format_1f (RSI latest) @ '')'')
      else (''RSI'', ''NEUTRAL'', ''Neutral RSI ('' @ format_1f (RSI latest) @ '')''))"

definition macd_signal :: "row \<Rightarrow> signal" where
  "macd_signal latest =
     (if fgt (MACD latest) (MACD_signal latest)
      then (''MACD'', ''BUY'', ''MACD above signal line'')
      else (''MACD'', ''SELL'', ''MACD below signal line''))"

definition bollinger_signal :: "row \<Rightarrow> signal" where
  "bollinger_signal latest =
     (if flt (Close latest) (BB_lower latest)
      then (''Bollinger Bands'', ''BUY'', ''Price below lower band'')
      else if fgt (Close latest) (BB_upper latest)
      then (''Bollinger Bands'', ''SELL'', ''Price above upper band'')
      else (''Bollinger Bands'', ''NEUTRAL'', ''Price within bands''))"

text \<open>The overall signal: the BUY verdicts counted against the SELL verdicts.\<close>

definition overall_signal :: "signal list \<Rightarrow> string" where
  "overall_signal signals =
     (let buy_signals = length (filter (\<lambda>s. verdict s = ''BUY'') signals);
          sell_signals = length (filter (\<lambda>s. verdict s = ''SELL'') signals)
      in if buy_signals > sell_signals then ''BUY''
         else if sell_signals > buy_signals then ''SELL''
         else ''NEUTRAL'')"

text \<open>
  The result of \<open>generate_signals\<close>: the triple \<open>(None, None, "No data available")\<close>
  when there is no frame, else the signals, the overall signal and the frame.
\<close>

datatype signals_result =
  No_signals string
| Signals "signal list" string "row list"

definition generate_signals :: "row list option \<Rightarrow> py_error + signals_result" where
  "generate_signals calculated =
     (case calculated of
        None \<Rightarrow> Inr (No_signals ''No data available'')
      | Some df \<Rightarrow>
          (case iloc_last df of
             Inl e \<Rightarrow> Inl e
           | Inr latest \<Rightarrow>
               (let signals = [moving_average_signal latest, rsi_signal latest,
                               macd_signal latest, bollinger_signal latest]
                in Inr (Signals signals (overall_signal signals) df))))"

section \<open>Price targets\<close>

text \<open>
  The plan is the dictionary the method returns, as the list of its items in the order
  of the dictionary display.
\<close>

type_synonym plan = "(string \<times> pyfloat) list"

text \<open>
  Truth value of the optional \<open>buy_price\<close> argument: \<open>None\<close> and zero are false,
  every other number is true.
\<close>

definition truthy :: "pyfloat option \<Rightarrow> bool" where
  "truthy buy_price = (case buy_price of None \<Rightarrow> False | Some b \<Rightarrow> b \<noteq> Fin 0)"

text \<open>
  \<open>calculate_price_targets\<close>. The first argument is what
  \<open>self.calculate_technical_indicators()\<close> returned, the second is
  \<open>self.current_price\<close> (\<open>None\<close> until data is fetched; multiplying it raises
  TypeError).
\<close>

definition calculate_price_targets ::
  "row list option \<Rightarrow> pyfloat option \<Rightarrow> string \<Rightarrow> pyfloat option \<Rightarrow> py_error + plan option" where
  "calculate_price_targets calculated current_price action buy_price =
     (case calculated of
        None \<Rightarrow> Inr None
      | Some df \<Rightarrow>
          (case iloc_last df of
             Inl e \<Rightarrow> Inl e
           | Inr latest \<Rightarrow>
               if action = ''BUY'' then
                 (case current_price of
                    None \<Rightarrow> Inl TypeError
                  | Some cp \<Rightarrow>
                      (let support = Support latest;
                           buy_target = py_max (fmul support (Fin 0.98)) (fmul cp (Fin 0.95));
                           stop_loss = fmul buy_target (Fin 0.95);
                           take_profit = fmul buy_target (Fin 1.15)
                       in Inr (Some
                            [(''entry_price'', buy_target),
                             (''stop_loss'', stop_loss),
                             (''take_profit'', take_profit),
                             (''risk_reward'',
                                fdiv (fsub take_profit buy_target) (fsub buy_target stop_loss))])))
               else if action = ''SELL'' \<and> truthy buy_price then
                 (case current_price of
                    None \<Rightarrow> Inl TypeError
                  | Some cp \<Rightarrow>
                      (let resistance = Resistance latest;
                           sell_target = py_min (fmul resistance (Fin 1.02)) (fmul cp (Fin 1.05));
                           profit_loss = fsub sell_target (the buy_price);
                           profit_percentage = fmul (fdiv profit_loss (the buy_price)) (Fin 100)
                       in Inr (Some
                            [(''sell_price'', sell_target),
                             (''profit_loss'', profit_loss),
                             (''profit_percentage'', profit_percentage),
                             (''current_price'', cp)])))
               else Inr None))"

section \<open>Indicator columns\<close>

text \<open>
  A column of the frame is the list of its values in time order. The pandas operations
  that \<open>calculate_technical_indicators\<close> applies to a column follow.
\<close>

text \<open>\<open>Series.diff()\<close>: the difference to the previous value, NaN at the first position.\<close>

definition diff :: "pyfloat list \<Rightarrow> pyfloat list" where
  "diff xs =
     (case xs of [] \<Rightarrow> [] | x # rest \<Rightarrow> NaN # map2 (\<lambda>prev cur. fsub cur prev) xs rest)"

text \<open>
  \<open>delta.where(delta > 0, 0)\<close> and \<open>delta.where(delta < 0, 0)\<close>: the value where the
  condition holds, else 0 (also where the value is NaN, whose comparison is false).
\<close>

definition where_gt0 :: "pyfloat list \<Rightarrow> pyfloat list" where
  "where_gt0 delta = map (\<lambda>d. if fgt d (Fin 0) then d else Fin 0) delta"

definition where_lt0 :: "pyfloat list \<Rightarrow> pyfloat list" where
  "where_lt0 delta = map (\<lambda>d. if flt d (Fin 0) then d else Fin 0) delta"

text \<open>
  \<open>Series.rolling(window=w).mean()\<close>: at position \<open>i\<close> the mean of the \<open>w\<close> values
  ending at \<open>i\<close>; NaN while fewer than \<open>w\<close> values are there, or when one of them is NaN
  (the minimum number of observations defaults to the window).
\<close>

definition rolling_mean :: "nat \<Rightarrow> pyfloat list \<Rightarrow> pyfloat list" where
  "rolling_mean w xs =
     map (\<lambda>i. if i + 1 < w then NaN
              else (let win = take w (drop (i + 1 - w) xs)
                    in if NaN \<in> set win then NaN
                       else fdiv (foldr fadd win (Fin 0)) (Fin (real w))))
         [0..<length xs]"

text \<open>
  \<open>Series.ewm(alpha, min_periods, adjust).mean()\<close> (with \<open>ignore_na=False\<close>), as pandas
  computes it: one pass that carries the current weighted mean, the weight of the past
  and the number of observations seen; a NaN input is no observation, and the output is
  NaN until \<open>max min_periods 1\<close> observations were seen.
\<close>

type_synonym ewm_state = "pyfloat \<times> real \<times> nat"

definition ewm_step :: "real \<Rightarrow> bool \<Rightarrow> ewm_state \<Rightarrow> pyfloat \<Rightarrow> ewm_state" where
  "ewm_step alpha adjust st cur =
     (case st of (weighted, old_wt, nobs) \<Rightarrow>
        (let is_observation = (cur \<noteq> NaN);
             nobs' = (if is_observation then nobs + 1 else nobs);
             new_wt = (if adjust then 1 else alpha)
         in if weighted \<noteq> NaN then
              (let old_wt' = old_wt * (1 - alpha)
               in if is_observation then
                    ((if weighted \<noteq> cur
                      then fdiv (fadd (fmul (Fin old_wt') weighted) (fmul (Fin new_wt) cur))
                                (Fin (old_wt' + new_wt))
                      else weighted),
                     (if adjust then old_wt' + new_wt else 1),
                     nobs')
                  else (weighted, old_wt', nobs'))
            else if is_observation then (cur, old_wt, nobs')
            else (weighted, old_wt, nobs')))"

fun ewm_run :: "real \<Rightarrow> bool \<Rightarrow> nat \<Rightarrow> ewm_state \<Rightarrow> pyfloat list \<Rightarrow> pyfloat list" where
  "ewm_run alpha adjust minp st [] = []"
| "ewm_run alpha adjust minp st (cur # rest) =
     (let st' = ewm_step alpha adjust st cur
      in (case st' of (weighted, old_wt, nobs) \<Rightarrow>
            (if minp \<le> nobs then weighted else NaN) # ewm_run alpha adjust minp st' rest))"

definition ewm_mean :: "real \<Rightarrow> bool \<Rightarrow> nat \<Rightarrow> pyfloat list \<Rightarrow> pyfloat list" where
  "ewm_mean alpha adjust min_periods xs =
     (case xs of
        [] \<Rightarrow> []
      | x # rest \<Rightarrow>
          (let minp = max min_periods 1;
               nobs = (if x \<noteq> NaN then 1 else 0)
           in (if minp \<le> nobs then x else NaN) # ewm_run alpha adjust minp (x, 1, nobs) rest))"

text \<open>The smoothing factor of a span.\<close>

definition alpha_of_span :: "nat \<Rightarrow> real" where
  "alpha_of_span periods = 2 / (real periods + 1)"

text \<open>\<open>Series.ewm(span=periods).mean()\<close>, with the defaults \<open>adjust=True\<close>, \<open>min_periods=0\<close>.\<close>

definition ewm_span_mean :: "nat \<Rightarrow> pyfloat list \<Rightarrow> pyfloat list" where
  "ewm_span_mean periods xs = ewm_mean (alpha_of_span periods) True 0 xs"

text \<open>Arithmetic of two columns of one frame is element by element.\<close>

definition series_sub :: "pyfloat list \<Rightarrow> pyfloat list \<Rightarrow> pyfloat list" where
  "series_sub xs ys = map2 fsub xs ys"

definition series_div :: "pyfloat list \<Rightarrow> pyfloat list \<Rightarrow> pyfloat list" where
  "series_div xs ys = map2 fdiv xs ys"

subsection \<open>The functions of the \<open>ta\<close> library\<close>

text \<open>
  The library path calls the technical-analysis package \<open>ta\<close>, which is not part of the
  repository. Its moving average \<open>_ema(series, periods)\<close> is
  \<open>series.ewm(span=periods, min_periods=periods, adjust=False).mean()\<close>; its class
  \<open>MACD\<close> (slow window 26, fast window 12, signal window 9) computes the MACD line as
  fast minus slow average, the signal line as the average of the MACD line, and the
  difference \<open>macd_diff\<close> as MACD line minus signal line.
\<close>

definition ta_ema :: "pyfloat list \<Rightarrow> nat \<Rightarrow> pyfloat list" where
  "ta_ema series periods = ewm_mean (alpha_of_span periods) False periods series"

definition ta_macd :: "pyfloat list \<Rightarrow> pyfloat list" where
  "ta_macd close = series_sub (ta_ema close 12) (ta_ema close 26)"

definition ta_macd_signal :: "pyfloat list \<Rightarrow> pyfloat list" where
  "ta_macd_signal close = ta_ema (ta_macd close) 9"

definition ta_macd_diff :: "pyfloat list \<Rightarrow> pyfloat list" where
  "ta_macd_diff close = series_sub (ta_macd close) (ta_macd_signal close)"

subsection \<open>The columns of \<open>calculate_technical_indicators\<close>\<close>

text \<open>
  Each column below is one assignment of \<open>calculate_technical_indicators\<close>, from the
  \<open>Close\<close> column; the flag is \<open>TA_AVAILABLE\<close>, which selects the library path or
  the manual fallback.
\<close>

definition EMA_12_column :: "bool \<Rightarrow> pyfloat list \<Rightarrow> pyfloat list" where
  "EMA_12_column TA_AVAILABLE close =
     (if TA_AVAILABLE then ta_ema close 12 else ewm_span_mean 12 close)"

definition EMA_26_column :: "bool \<Rightarrow> pyfloat list \<Rightarrow> pyfloat list" where
  "EMA_26_column TA_AVAILABLE close =
     (if TA_AVAILABLE then ta_ema close 26 else ewm_span_mean 26 close)"

definition MACD_column :: "bool \<Rightarrow> pyfloat list \<Rightarrow> pyfloat list" where
  "MACD_column TA_AVAILABLE close =
     (if TA_AVAILABLE then ta_macd_diff close
      else series_sub (EMA_12_column TA_AVAILABLE close) (EMA_26_column TA_AVAILABLE close))"

definition MACD_signal_column :: "bool \<Rightarrow> pyfloat list \<Rightarrow> pyfloat list" where
  "MACD_signal_column TA_AVAILABLE close =
     (if TA_AVAILABLE then ta_macd_signal close
      else ewm_span_mean 9 (MACD_column TA_AVAILABLE close))"

text \<open>
  The manual RSI: trailing 14-bar means of the gains and of the losses, their quotient
  \<open>rs\<close>, and \<open>100 - 100 / (1 + rs)\<close>.
\<close>

definition rsi_gain :: "pyfloat list \<Rightarrow> pyfloat list" where
  "rsi_gain close = rolling_mean 14 (where_gt0 (diff close))"

definition rsi_loss :: "pyfloat list \<Rightarrow> pyfloat list" where
  "rsi_loss close = rolling_mean 14 (map fneg (where_lt0 (diff close)))"

definition RSI_manual :: "pyfloat list \<Rightarrow> pyfloat list" where
  "RSI_manual close =
     (let gain = rsi_gain close;
          loss = rsi_loss close;
          rs = series_div gain loss
      in map (\<lambda>r. fsub (Fin 100) (fdiv (Fin 100) (fadd (Fin 1) r))) rs)"

section \<open>Properties of signal generation\<close>

lemma length_filter_verdict:
  "length (filter (\<lambda>s. verdict s = v) signals) = count_list (map verdict signals) v"
  by (induction signals) auto

lemma generate_signals_nonempty:
  "df \<noteq> [] \<Longrightarrow>
   generate_signals (Some df) =
     Inr (Signals [moving_average_signal (last df), rsi_signal (last df),
                   macd_signal (last df), bollinger_signal (last df)]
            (overall_signal [moving_average_signal (last df), rsi_signal (last df),
                   macd_signal (last df), bollinger_signal (last df)]) df)"
  by (simp add: generate_signals_def iloc_last_def Let_def)

lemma generate_signals_overall:
  "generate_signals calculated = Inr (Signals signals overall df) \<Longrightarrow>
   length signals = 4 \<and> overall = overall_signal signals"
  by (auto simp: generate_signals_def iloc_last_def Let_def split: option.splits if_splits)

text \<open>
  C1. The overall verdict of a list of signals is BUY when the BUY verdicts outnumber
  the SELL verdicts, SELL when the SELL verdicts outnumber the BUY verdicts, and NEUTRAL
  when the two counts are equal (zero of each included); it is always one of the three.
  This holds for every list of signals, so for the four that \<open>generate_signals\<close>
  builds.
\<close>

theorem overall_signal_majority:
  "(count_list (map verdict signals) ''SELL'' < count_list (map verdict signals) ''BUY''
      \<longrightarrow> overall_signal signals = ''BUY'')
   \<and> (count_list (map verdict signals) ''BUY'' < count_list (map verdict signals) ''SELL''
      \<longrightarrow> overall_signal signals = ''SELL'')
   \<and> (count_list (map verdict signals) ''BUY'' = count_list (map verdict signals) ''SELL''
      \<longrightarrow> overall_signal signals = ''NEUTRAL'')
   \<and> overall_signal signals \<in> {''BUY'', ''SELL'', ''NEUTRAL''}"
  by (simp add: overall_signal_def length_filter_verdict Let_def)

theorem overall_signal_majority_witness:
  "overall_signal [(''Moving Average'', ''BUY'', ''a''), (''RSI'', ''BUY'', ''b''),
                   (''MACD'', ''BUY'', ''c''), (''Bollinger Bands'', ''SELL'', ''d'')] = ''BUY''
   \<and> overall_signal [(''Moving Average'', ''SELL'', ''a''), (''RSI'', ''NEUTRAL'', ''b''),
                   (''MACD'', ''SELL'', ''c''), (''Bollinger Bands'', ''BUY'', ''d'')] = ''SELL''
   \<and> overall_signal [(''Moving Average'', ''BUY'', ''a''), (''RSI'', ''BUY'', ''b''),
                   (''MACD'', ''SELL'', ''c''), (''Bollinger Bands'', ''SELL'', ''d'')] = ''NEUTRAL''
   \<and> overall_signal [(''Moving Average'', ''NEUTRAL'', ''a''), (''RSI'', ''NEUTRAL'', ''b''),
                   (''MACD'', ''NEUTRAL'', ''c''), (''Bollinger Bands'', ''NEUTRAL'', ''d'')] = ''NEUTRAL''"
  using
    overall_signal_majority [of "[(''Moving Average'', ''BUY'', ''a''), (''RSI'', ''BUY'', ''b''),
                   (''MACD'', ''BUY'', ''c''), (''Bollinger Bands'', ''SELL'', ''d'')]"]
    overall_signal_majority [of "[(''Moving Average'', ''SELL'', ''a''), (''RSI'', ''NEUTRAL'', ''b''),
                   (''MACD'', ''SELL'', ''c''), (''Bollinger Bands'', ''BUY'', ''d'')]"]
    overall_signal_majority [of "[(''Moving Average'', ''BUY'', ''a''), (''RSI'', ''BUY'', ''b''),
                   (''MACD'', ''SELL'', ''c''), (''Bollinger Bands'', ''SELL'', ''d'')]"]
    overall_signal_majority [of "[(''Moving Average'', ''NEUTRAL'', ''a''), (''RSI'', ''NEUTRAL'', ''b''),
                   (''MACD'', ''NEUTRAL'', ''c''), (''Bollinger Bands'', ''NEUTRAL'', ''d'')]"]
  by (simp add: verdict_def)

text \<open>
  C2, as the code has it. On a frame with a last row the generator never fails and
  returns four signals. A NaN in the close or in either moving average makes the
  Moving-Average family NEUTRAL, a NaN RSI makes the RSI family NEUTRAL, a NaN close or
  NaN bands make the Bollinger family NEUTRAL, each with its usual rationale (the RSI
  one prints \<open>nan\<close>); no rationale mentions missing history. A NaN MACD or MACD signal
  makes the MACD family SELL, since its rule has only two branches.
\<close>

theorem undefined_indicator_signals:
  assumes "df \<noteq> []"
  shows "\<exists>signals overall.
           generate_signals (Some df) = Inr (Signals signals overall df)
           \<and> length signals = 4
           \<and> (Close (last df) = NaN \<or> SMA_20 (last df) = NaN \<or> SMA_50 (last df) = NaN \<longrightarrow>
                signals ! 0 = (''Moving Average'', ''NEUTRAL'', ''Mixed moving average signals''))
           \<and> (RSI (last df) = NaN \<longrightarrow>
                signals ! 1 = (''RSI'', ''NEUTRAL'', ''Neutral RSI (nan)''))
           \<and> (MACD (last df) = NaN \<or> MACD_signal (last df) = NaN \<longrightarrow>
                signals ! 2 = (''MACD'', ''SELL'', ''MACD below signal line''))
           \<and> (Close (last df) = NaN \<or> BB_lower (last df) = NaN \<and> BB_upper (last df) = NaN \<longrightarrow>
                signals ! 3 = (''Bollinger Bands'', ''NEUTRAL'', ''Price within bands''))"
  using assms
  by (simp add: generate_signals_nonempty moving_average_signal_def rsi_signal_def
      macd_signal_def bollinger_signal_def fgt_def)

theorem undefined_indicator_signals_witness:
  "\<exists>signals overall.
     generate_signals (Some [\<lparr>Close = Fin 105, SMA_20 = NaN, SMA_50 = NaN, RSI = NaN,
              MACD = NaN, MACD_signal = NaN, BB_upper = NaN, BB_lower = NaN,
              Support = NaN, Resistance = NaN\<rparr>])
       = Inr (Signals signals overall [\<lparr>Close = Fin 105, SMA_20 = NaN, SMA_50 = NaN, RSI = NaN,
              MACD = NaN, MACD_signal = NaN, BB_upper = NaN, BB_lower = NaN,
              Support = NaN, Resistance = NaN\<rparr>])
     \<and> signals ! 0 = (''Moving Average'', ''NEUTRAL'', ''Mixed moving average signals'')
     \<and> signals ! 1 = (''RSI'', ''NEUTRAL'', ''Neutral RSI (nan)'')
     \<and> signals ! 2 = (''MACD'', ''SELL'', ''MACD below signal line'')
     \<and> signals ! 3 = (''Bollinger Bands'', ''NEUTRAL'', ''Price within bands'')"
  using undefined_indicator_signals [of "[\<lparr>Close = Fin 105, SMA_20 = NaN, SMA_50 = NaN, RSI = NaN,
              MACD = NaN, MACD_signal = NaN, BB_upper = NaN, BB_lower = NaN,
              Support = NaN, Resistance = NaN\<rparr>]"]
  by auto

text \<open>
  The claim C2 as the specification words it fails: on a last row whose MACD and MACD
  signal are NaN and whose other indicators are defined, the MACD family answers SELL
  with the rationale of the ordinary SELL branch.
\<close>

theorem macd_undefined_counterexample:
  "generate_signals (Some [\<lparr>Close = Fin 105, SMA_20 = Fin 100, SMA_50 = Fin 95, RSI = Fin 50,
              MACD = NaN, MACD_signal = NaN, BB_upper = Fin 110, BB_lower = Fin 90,
              Support = Fin 90, Resistance = Fin 110\<rparr>])
   = Inr (Signals [(''Moving Average'', ''BUY'', ''Price above both SMA20 and SMA50''),
                   (''RSI'', ''NEUTRAL'', ''Neutral RSI (50.0)''),
                   (''MACD'', ''SELL'', ''MACD below signal line''),
                   (''Bollinger Bands'', ''NEUTRAL'', ''Price within bands'')]
            ''NEUTRAL''
            [\<lparr>Close = Fin 105, SMA_20 = Fin 100, SMA_50 = Fin 95, RSI = Fin 50,
              MACD = NaN, MACD_signal = NaN, BB_upper = Fin 110, BB_lower = Fin 90,
              Support = Fin 90, Resistance = Fin 110\<rparr>])"
  by (simp add: generate_signals_def iloc_last_def moving_average_signal_def rsi_signal_def
      macd_signal_def bollinger_signal_def fgt_def overall_signal_def verdict_def
      round_half_even_def str_nat.simps digit_char_def Let_def)

text \<open>
  C3. When the MACD and the MACD signal of the last row are numbers, the MACD family
  (the third signal) is BUY exactly when the MACD is greater than the signal and SELL
  otherwise; it is never NEUTRAL, and equal values give SELL.
\<close>

theorem macd_family_binary:
  assumes "df \<noteq> []" and "MACD (last df) = Fin m" and "MACD_signal (last df) = Fin sg"
  shows "\<exists>signals overall.
           generate_signals (Some df) = Inr (Signals signals overall df)
           \<and> length signals = 4
           \<and> signals ! 2 = (''MACD'', (if sg < m then ''BUY'' else ''SELL''),
                      (if sg < m then ''MACD above signal line'' else ''MACD below signal line''))
           \<and> (verdict (signals ! 2) = ''BUY'' \<longleftrightarrow> sg < m)
           \<and> (verdict (signals ! 2) = ''SELL'' \<longleftrightarrow> \<not> sg < m)
           \<and> verdict (signals ! 2) \<noteq> ''NEUTRAL''
           \<and> (m = sg \<longrightarrow> verdict (signals ! 2) = ''SELL'')"
  using assms
  by (simp add: generate_signals_nonempty macd_signal_def fgt_def verdict_def)

theorem macd_family_binary_witness:
  "\<exists>signals overall.
     generate_signals (Some [\<lparr>Close = Fin 150, SMA_20 = Fin 145, SMA_50 = Fin 140,
              RSI = Fin 25, MACD = Fin 0.8, MACD_signal = Fin 0.8, BB_upper = Fin 170,
              BB_lower = Fin 155, Support = Fin 100, Resistance = Fin 160\<rparr>])
       = Inr (Signals signals overall [\<lparr>Close = Fin 150, SMA_20 = Fin 145, SMA_50 = Fin 140,
              RSI = Fin 25, MACD = Fin 0.8, MACD_signal = Fin 0.8, BB_upper = Fin 170,
              BB_lower = Fin 155, Support = Fin 100, Resistance = Fin 160\<rparr>])
     \<and> signals ! 2 = (''MACD'', ''SELL'', ''MACD below signal line'')"
  using macd_family_binary [of "[\<lparr>Close = Fin 150, SMA_20 = Fin 145, SMA_50 = Fin 140,
              RSI = Fin 25, MACD = Fin 0.8, MACD_signal = Fin 0.8, BB_upper = Fin 170,
              BB_lower = Fin 155, Support = Fin 100, Resistance = Fin 160\<rparr>]" "0.8" "0.8"]
  by auto

text \<open>
  C9. When the close, the SMA20 and the SMA50 of the last row are numbers, the
  Moving-Average family (the first signal) is BUY exactly when close > SMA20 > SMA50,
  SELL exactly when close < SMA20 < SMA50, and NEUTRAL in every other case, each with
  the rationale string of its branch.
\<close>

theorem moving_average_family:
  assumes "df \<noteq> []" and "Close (last df) = Fin c" and "SMA_20 (last df) = Fin s20"
    and "SMA_50 (last df) = Fin s50"
  shows "\<exists>signals overall.
           generate_signals (Some df) = Inr (Signals signals overall df)
           \<and> length signals = 4
           \<and> (verdict (signals ! 0) = ''BUY'' \<longleftrightarrow> s20 < c \<and> s50 < s20)
           \<and> (verdict (signals ! 0) = ''SELL'' \<longleftrightarrow> c < s20 \<and> s20 < s50)
           \<and> (verdict (signals ! 0) = ''NEUTRAL'' \<longleftrightarrow>
                 \<not> (s20 < c \<and> s50 < s20) \<and> \<not> (c < s20 \<and> s20 < s50))
           \<and> signals ! 0 =
               (if s20 < c \<and> s50 < s20
                then (''Moving Average'', ''BUY'', ''Price above both SMA20 and SMA50'')
                else if c < s20 \<and> s20 < s50
                then (''Moving Average'', ''SELL'', ''Price below both SMA20 and SMA50'')
                else (''Moving Average'', ''NEUTRAL'', ''Mixed moving average signals''))"
  using assms
  by (simp add: generate_signals_nonempty moving_average_signal_def fgt_def verdict_def)

theorem moving_average_family_witness:
  "\<exists>signals overall.
     generate_signals (Some [\<lparr>Close = Fin 150, SMA_20 = Fin 145, SMA_50 = Fin 140,
              RSI = Fin 25, MACD = Fin 1.2, MACD_signal = Fin 0.8, BB_upper = Fin 170,
              BB_lower = Fin 155, Support = Fin 100, Resistance = Fin 160\<rparr>])
       = Inr (Signals signals overall [\<lparr>Close = Fin 150, SMA_20 = Fin 145, SMA_50 = Fin 140,
              RSI = Fin 25, MACD = Fin 1.2, MACD_signal = Fin 0.8, BB_upper = Fin 170,
              BB_lower = Fin 155, Support = Fin 100, Resistance = Fin 160\<rparr>])
     \<and> signals ! 0 = (''Moving Average'', ''BUY'', ''Price above both SMA20 and SMA50'')"
  using moving_average_family [of "[\<lparr>Close = Fin 150, SMA_20 = Fin 145, SMA_50 = Fin 140,
              RSI = Fin 25, MACD = Fin 1.2, MACD_signal = Fin 0.8, BB_upper = Fin 170,
              BB_lower = Fin 155, Support = Fin 100, Resistance = Fin 160\<rparr>]" 150 145 140]
  by auto

section \<open>Properties of the price targets\<close>

lemma py_max_Fin: "py_max (Fin a) (Fin b) = Fin (max a b)"
  by (simp add: py_max_def fgt_def max_def)

lemma fsub_Fin: "fsub (Fin a) (Fin b) = Fin (a - b)"
  by (simp add: fsub_def)

text \<open>The BUY plan on finite inputs, with every field in terms of the entry price.\<close>

lemma buy_plan_finite:
  assumes "df \<noteq> []" and "Support (last df) = Fin s"
  shows "calculate_price_targets (Some df) (Some (Fin p)) ''BUY'' buy_price =
           Inr (Some [(''entry_price'', Fin (max (s * 0.98) (p * 0.95))),
                      (''stop_loss'', Fin (max (s * 0.98) (p * 0.95) * 0.95)),
                      (''take_profit'', Fin (max (s * 0.98) (p * 0.95) * 1.15)),
                      (''risk_reward'',
                         fdiv (Fin (max (s * 0.98) (p * 0.95) * 1.15 - max (s * 0.98) (p * 0.95)))
                              (Fin (max (s * 0.98) (p * 0.95)
                                    - max (s * 0.98) (p * 0.95) * 0.95)))])"
  using assms
  by (simp add: calculate_price_targets_def iloc_last_def py_max_Fin fsub_Fin Let_def
           del: fdiv.simps)

lemma risk_reward_nonzero:
  assumes "e \<noteq> 0"
  shows "fdiv (Fin (e * 1.15 - e)) (Fin (e - e * 0.95)) = Fin 3"
proof -
  have "e * 1.15 - e = 3 * (e - e * 0.95)" by (simp add: algebra_simps)
  moreover have "e - e * 0.95 \<noteq> 0" using assms by (simp add: algebra_simps)
  ultimately show ?thesis by simp
qed

lemma risk_reward_zero: "fdiv (Fin (0 * 1.15 - 0)) (Fin (0 - 0 * 0.95)) = NaN"
  by (simp add: inf_of_sign_def)

text \<open>
  C6. A BUY request with support level \<open>s\<close> and current price \<open>p\<close> returns the plan
  with entry price \<open>max (s * 0.98) (p * 0.95)\<close>, stop loss \<open>entry * 0.95\<close>, take profit
  \<open>entry * 1.15\<close> and risk/reward \<open>(take_profit - entry) / (entry - stop_loss)\<close>, the
  quotient being the NumPy division.
\<close>

theorem buy_plan_formulas:
  assumes "df \<noteq> []" and "Support (last df) = Fin s"
  shows "\<exists>entry_price stop_loss take_profit.
           calculate_price_targets (Some df) (Some (Fin p)) ''BUY'' buy_price =
             Inr (Some [(''entry_price'', Fin entry_price),
                        (''stop_loss'', Fin stop_loss),
                        (''take_profit'', Fin take_profit),
                        (''risk_reward'',
                           fdiv (Fin (take_profit - entry_price)) (Fin (entry_price - stop_loss)))])
           \<and> entry_price = max (s * 0.98) (p * 0.95)
           \<and> stop_loss = entry_price * 0.95
           \<and> take_profit = entry_price * 1.15"
  by (intro exI conjI, rule buy_plan_finite [OF assms]) (rule refl)+

theorem buy_plan_formulas_witness:
  "\<exists>entry_price stop_loss take_profit.
   calculate_price_targets
     (Some [\<lparr>Close = Fin 105, SMA_20 = NaN, SMA_50 = NaN, RSI = NaN, MACD = NaN,
             MACD_signal = NaN, BB_upper = NaN, BB_lower = NaN,
             Support = Fin 100, Resistance = Fin 120\<rparr>])
     (Some (Fin 105)) ''BUY'' None
   = Inr (Some [(''entry_price'', Fin entry_price), (''stop_loss'', Fin stop_loss),
                (''take_profit'', Fin take_profit),
                (''risk_reward'',
                   fdiv (Fin (take_profit - entry_price)) (Fin (entry_price - stop_loss)))])
   \<and> entry_price = 99.75 \<and> stop_loss = entry_price * 0.95
   \<and> take_profit = entry_price * 1.15"
proof -
  have "(99.75::real) = max (100 * 0.98) (105 * 0.95)" by simp
  then show ?thesis
    using buy_plan_formulas [of "[\<lparr>Close = Fin 105, SMA_20 = NaN, SMA_50 = NaN, RSI = NaN,
             MACD = NaN, MACD_signal = NaN, BB_upper = NaN, BB_lower = NaN,
             Support = Fin 100, Resistance = Fin 120\<rparr>]" 100 105 None]
    by (simp del: fdiv.simps)
qed

text \<open>
  C7, as the code has it. In a BUY plan on finite inputs the entry price equals the
  stop loss exactly when the entry price is zero; the calculator then still divides,
  raises nothing and returns the plan, whose risk/reward is NaN (zero over zero).
\<close>

theorem buy_plan_zero_entry:
  assumes "df \<noteq> []" and "Support (last df) = Fin s"
  shows "\<exists>entry_price stop_loss take_profit risk_reward.
           calculate_price_targets (Some df) (Some (Fin p)) ''BUY'' buy_price =
             Inr (Some [(''entry_price'', Fin entry_price),
                        (''stop_loss'', Fin stop_loss),
                        (''take_profit'', Fin take_profit),
                        (''risk_reward'', risk_reward)])
           \<and> entry_price = max (s * 0.98) (p * 0.95)
           \<and> (entry_price = stop_loss \<longleftrightarrow> entry_price = 0)
           \<and> (entry_price = stop_loss \<longrightarrow> risk_reward = NaN)"
proof -
  define e where "e = max (s * 0.98) (p * 0.95)"
  define rr where "rr = fdiv (Fin (e * 1.15 - e)) (Fin (e - e * 0.95))"
  have "calculate_price_targets (Some df) (Some (Fin p)) ''BUY'' buy_price =
          Inr (Some [(''entry_price'', Fin e), (''stop_loss'', Fin (e * 0.95)),
                     (''take_profit'', Fin (e * 1.15)), (''risk_reward'', rr)])"
    using buy_plan_finite [OF assms, of p buy_price] by (simp add: e_def rr_def del: fdiv.simps)
  moreover have "e = e * 0.95 \<longleftrightarrow> e = 0" by simp
  moreover have "e = e * 0.95 \<longrightarrow> rr = NaN"
    using risk_reward_zero by (simp add: rr_def del: fdiv.simps)
  ultimately show ?thesis using e_def by blast
qed

theorem buy_plan_zero_entry_witness:
  "\<exists>entry_price stop_loss take_profit risk_reward.
   calculate_price_targets
     (Some [\<lparr>Close = Fin 0, SMA_20 = NaN, SMA_50 = NaN, RSI = NaN, MACD = NaN,
             MACD_signal = NaN, BB_upper = NaN, BB_lower = NaN,
             Support = Fin 0, Resistance = Fin 0\<rparr>])
     (Some (Fin (- 5))) ''BUY'' None
   = Inr (Some [(''entry_price'', Fin entry_price), (''stop_loss'', Fin stop_loss),
                (''take_profit'', Fin take_profit), (''risk_reward'', risk_reward)])
   \<and> entry_price = 0 \<and> stop_loss = 0 \<and> risk_reward = NaN"
proof -
  have "(0::real) = max (0 * 0.98) (- 5 * 0.95)" by simp
  then show ?thesis
    using buy_plan_zero_entry [of "[\<lparr>Close = Fin 0, SMA_20 = NaN, SMA_50 = NaN,
             RSI = NaN, MACD = NaN, MACD_signal = NaN, BB_upper = NaN, BB_lower = NaN,
             Support = Fin 0, Resistance = Fin 0\<rparr>]" 0 "- 5" None]
    by auto
qed

text \<open>
  With support 0 and current price 0 the entry price and the stop loss are both 0, and
  the call returns an ordinary plan with a NaN risk/reward: no error result.
\<close>

theorem buy_plan_zero_entry_counterexample:
  "calculate_price_targets
     (Some [\<lparr>Close = Fin 0, SMA_20 = NaN, SMA_50 = NaN, RSI = NaN, MACD = NaN,
             MACD_signal = NaN, BB_upper = NaN, BB_lower = NaN,
             Support = Fin 0, Resistance = Fin 0\<rparr>])
     (Some (Fin 0)) ''BUY'' None
   = Inr (Some [(''entry_price'', Fin 0), (''stop_loss'', Fin 0),
                (''take_profit'', Fin 0), (''risk_reward'', NaN)])"
  by (simp add: calculate_price_targets_def iloc_last_def py_max_def fgt_def fsub_def
      inf_of_sign_def Let_def)

text \<open>
  C10. A BUY plan on finite inputs whose entry price is strictly positive has
  \<open>stop_loss < entry_price < take_profit\<close> and, in exact arithmetic, a risk/reward of
  exactly 3, whatever the support level and the current price are.
\<close>

theorem buy_plan_risk_reward_three:
  assumes "df \<noteq> []" and "Support (last df) = Fin s" and "0 < max (s * 0.98) (p * 0.95)"
  shows "\<exists>entry_price stop_loss take_profit.
           calculate_price_targets (Some df) (Some (Fin p)) ''BUY'' buy_price =
             Inr (Some [(''entry_price'', Fin entry_price),
                        (''stop_loss'', Fin stop_loss),
                        (''take_profit'', Fin take_profit),
                        (''risk_reward'', Fin 3)])
           \<and> entry_price = max (s * 0.98) (p * 0.95)
           \<and> stop_loss < entry_price \<and> entry_price < take_profit"
proof -
  define e where "e = max (s * 0.98) (p * 0.95)"
  have pos: "0 < e" using assms(3) by (simp add: e_def)
  have "calculate_price_targets (Some df) (Some (Fin p)) ''BUY'' buy_price =
          Inr (Some [(''entry_price'', Fin e), (''stop_loss'', Fin (e * 0.95)),
                     (''take_profit'', Fin (e * 1.15)), (''risk_reward'', Fin 3)])"
    using buy_plan_finite [OF assms(1,2), of p buy_price] risk_reward_nonzero [of e] pos
    by (simp add: e_def del: fdiv.simps)
  moreover have "e * 0.95 < e" and "e < e * 1.15" using pos by simp_all
  ultimately show ?thesis using e_def by blast
qed

theorem buy_plan_risk_reward_three_witness:
  "\<exists>entry_price stop_loss take_profit.
   calculate_price_targets
     (Some [\<lparr>Close = Fin 105, SMA_20 = NaN, SMA_50 = NaN, RSI = NaN, MACD = NaN,
             MACD_signal = NaN, BB_upper = NaN, BB_lower = NaN,
             Support = Fin 100, Resistance = Fin 120\<rparr>])
     (Some (Fin 105)) ''BUY'' None
   = Inr (Some [(''entry_price'', Fin entry_price), (''stop_loss'', Fin stop_loss),
                (''take_profit'', Fin take_profit), (''risk_reward'', Fin 3)])
   \<and> entry_price = 99.75 \<and> stop_loss < entry_price \<and> entry_price < take_profit"
proof -
  have "(99.75::real) = max (100 * 0.98) (105 * 0.95)" by simp
  moreover have "(0::real) < max (100 * 0.98) (105 * 0.95)" by simp
  ultimately show ?thesis
    using buy_plan_risk_reward_three [of "[\<lparr>Close = Fin 105, SMA_20 = NaN, SMA_50 = NaN,
             RSI = NaN, MACD = NaN, MACD_signal = NaN, BB_upper = NaN, BB_lower = NaN,
             Support = Fin 100, Resistance = Fin 120\<rparr>]" 100 105 None]
    by simp
qed

text \<open>
  C8, as the code has it. A SELL request on a frame with a last row returns no plan when
  the basis price is missing and when it is zero; for every other basis price, a
  negative one included, it returns the sell plan. The calculator tests the truth value
  of the basis price, not its sign.
\<close>

theorem sell_plan_basis_price:
  assumes "df \<noteq> []"
  shows "calculate_price_targets (Some df) (Some cp) ''SELL'' None = Inr None
       \<and> calculate_price_targets (Some df) (Some cp) ''SELL'' (Some (Fin 0)) = Inr None
       \<and> (b \<noteq> Fin 0 \<longrightarrow>
            calculate_price_targets (Some df) (Some cp) ''SELL'' (Some b) =
              Inr (Some
                [(''sell_price'',
                    py_min (fmul (Resistance (last df)) (Fin 1.02)) (fmul cp (Fin 1.05))),
                 (''profit_loss'',
                    fsub (py_min (fmul (Resistance (last df)) (Fin 1.02)) (fmul cp (Fin 1.05))) b),
                 (''profit_percentage'',
                    fmul (fdiv (fsub (py_min (fmul (Resistance (last df)) (Fin 1.02))
                                             (fmul cp (Fin 1.05))) b) b) (Fin 100)),
                 (''current_price'', cp)]))"
  using assms
  by (simp add: calculate_price_targets_def iloc_last_def truthy_def Let_def)

theorem sell_plan_basis_price_witness:
  "calculate_price_targets
     (Some [\<lparr>Close = Fin 115, SMA_20 = NaN, SMA_50 = NaN, RSI = NaN, MACD = NaN,
             MACD_signal = NaN, BB_upper = NaN, BB_lower = NaN,
             Support = Fin 100, Resistance = Fin 120\<rparr>])
     (Some (Fin 115)) ''SELL'' (Some (Fin 100))
   = Inr (Some [(''sell_price'', Fin 120.75), (''profit_loss'', Fin 20.75),
                (''profit_percentage'', Fin 20.75), (''current_price'', Fin 115)])"
  using sell_plan_basis_price [of "[\<lparr>Close = Fin 115, SMA_20 = NaN, SMA_50 = NaN, RSI = NaN,
             MACD = NaN, MACD_signal = NaN, BB_upper = NaN, BB_lower = NaN,
             Support = Fin 100, Resistance = Fin 120\<rparr>]" "Fin 115" "Fin 100"]
  by (simp add: py_min_def fsub_def)

text \<open>
  A basis price of -100 is not rejected: the call returns a plan, with a profit of
  220.75 and a profit percentage of -220.75.
\<close>

theorem sell_plan_negative_basis_counterexample:
  "calculate_price_targets
     (Some [\<lparr>Close = Fin 115, SMA_20 = NaN, SMA_50 = NaN, RSI = NaN, MACD = NaN,
             MACD_signal = NaN, BB_upper = NaN, BB_lower = NaN,
             Support = Fin 100, Resistance = Fin 120\<rparr>])
     (Some (Fin 115)) ''SELL'' (Some (Fin (- 100)))
   = Inr (Some [(''sell_price'', Fin 120.75), (''profit_loss'', Fin 220.75),
                (''profit_percentage'', Fin (- 220.75)), (''current_price'', Fin 115)])"
  by (simp add: calculate_price_targets_def iloc_last_def truthy_def py_min_def fsub_def Let_def)

section \<open>Properties of the indicator columns\<close>

lemma length_diff [simp]: "length (diff xs) = length xs"
  by (cases xs) (simp_all add: diff_def)

lemma length_rolling_mean [simp]: "length (rolling_mean w xs) = length xs"
  by (simp add: rolling_mean_def)

lemma length_rsi_gain [simp]: "length (rsi_gain close) = length close"
  by (simp add: rsi_gain_def where_gt0_def)

lemma length_rsi_loss [simp]: "length (rsi_loss close) = length close"
  by (simp add: rsi_loss_def where_lt0_def)

lemma RSI_manual_nth:
  assumes "i < length close"
  shows "RSI_manual close ! i =
           fsub (Fin 100)
             (fdiv (Fin 100) (fadd (Fin 1) (fdiv (rsi_gain close ! i) (rsi_loss close ! i))))"
  using assms by (simp add: RSI_manual_def series_div_def Let_def)

text \<open>
  C5, as the code has it, for the manual RSI. At a bar where the trailing mean gain and
  mean loss are numbers and the mean loss is 0: a positive mean gain gives an RSI of
  100 (the quotient is plus infinity, nothing fails), and a mean gain of 0 gives NaN
  (zero over zero), not 50.
\<close>

theorem rsi_manual_zero_loss:
  assumes "i < length close" and "rsi_gain close ! i = Fin g" and "rsi_loss close ! i = Fin 0"
  shows "(0 < g \<longrightarrow> RSI_manual close ! i = Fin 100)
       \<and> (g = 0 \<longrightarrow> RSI_manual close ! i = NaN)"
  using assms by (simp add: RSI_manual_nth inf_of_sign_def fsub_def)

theorem rsi_manual_zero_loss_witness:
  "RSI_manual (map Fin [10, 11, 12, 13, 14, 15, 16, 17, 18, 19, 20, 21, 22, 23, 24]) ! 14
     = Fin 100
   \<and> RSI_manual (replicate 15 (Fin 10)) ! 14 = NaN"
proof -
  have "rsi_gain (map Fin [10, 11, 12, 13, 14, 15, 16, 17, 18, 19, 20, 21, 22, 23, 24]) ! 14
          = Fin 1"
    by code_simp
  moreover
  have "rsi_loss (map Fin [10, 11, 12, 13, 14, 15, 16, 17, 18, 19, 20, 21, 22, 23, 24]) ! 14
          = Fin 0"
    by code_simp
  moreover have "rsi_gain (replicate 15 (Fin 10)) ! 14 = Fin 0" by code_simp
  moreover have "rsi_loss (replicate 15 (Fin 10)) ! 14 = Fin 0" by code_simp
  ultimately show ?thesis
    using
      rsi_manual_zero_loss
        [of 14 "map Fin [10, 11, 12, 13, 14, 15, 16, 17, 18, 19, 20, 21, 22, 23, 24]" 1]
      rsi_manual_zero_loss [of 14 "replicate 15 (Fin 10)" 0]
    by simp
qed

text \<open>
  On fifteen bars of constant price 10 the mean gain and the mean loss at the last bar
  are both 0 and the manual RSI there is NaN.
\<close>

theorem rsi_flat_series_counterexample:
  "rsi_gain (replicate 15 (Fin 10)) ! 14 = Fin 0
   \<and> rsi_loss (replicate 15 (Fin 10)) ! 14 = Fin 0
   \<and> RSI_manual (replicate 15 (Fin 10)) ! 14 = NaN
   \<and> RSI_manual (replicate 15 (Fin 10)) ! 14 \<noteq> Fin 50"
  by code_simp

text \<open>
  The manual path: the MACD column is the EMA-12 column minus the EMA-26 column, and the
  signal column is the span-9 average of the MACD column.
\<close>

lemma MACD_manual:
  "MACD_column False close = series_sub (EMA_12_column False close) (EMA_26_column False close)"
  "MACD_signal_column False close = ewm_span_mean 9 (MACD_column False close)"
  "EMA_12_column False close = ewm_span_mean 12 close"
  "EMA_26_column False close = ewm_span_mean 26 close"
  by (simp_all add: MACD_column_def MACD_signal_column_def EMA_12_column_def EMA_26_column_def)

text \<open>
  The library path: the MACD column is the difference of the two averages minus the
  signal column, and the signal column is the average of that difference of averages,
  not of the MACD column.
\<close>

lemma MACD_library:
  "MACD_column True close =
     series_sub (series_sub (EMA_12_column True close) (EMA_26_column True close))
                (MACD_signal_column True close)"
  "MACD_signal_column True close =
     ta_ema (series_sub (EMA_12_column True close) (EMA_26_column True close)) 9"
  by (simp_all add: MACD_column_def MACD_signal_column_def EMA_12_column_def EMA_26_column_def
      ta_macd_diff_def ta_macd_signal_def ta_macd_def)

text \<open>
  C4 requires the MACD column to be EMA(12) minus EMA(26) on both paths. On the library
  path it is not: for 33 closes of 100 followed by one close of 101, the last MACD value
  is 112/1755, while EMA(12) minus EMA(26) there is 28/351 and the signal is 28/1755;
  the column holds the difference of the two.
\<close>

theorem macd_library_column_is_histogram:
  "MACD_column True (replicate 33 (Fin 100) @ [Fin 101]) ! 33 = Fin (112 / 1755)
   \<and> series_sub (EMA_12_column True (replicate 33 (Fin 100) @ [Fin 101]))
                 (EMA_26_column True (replicate 33 (Fin 100) @ [Fin 101])) ! 33 = Fin (28 / 351)
   \<and> MACD_signal_column True (replicate 33 (Fin 100) @ [Fin 101]) ! 33 = Fin (28 / 1755)"
  by code_simp

end
